theory Spec2Isabelle
  imports Complex_Main "HOL-Library.Word"
begin

unbundle bit_operations_syntax

section \<open>The asset shelf grid view (asset\_shelf\_asset\_view.cc)\<close>

text \<open>
  A shallow embedding of \<^verbatim>\<open>source/blender/editors/asset/intern/asset_shelf_asset_view.cc\<close>.
  Pointers that the code tests against null are \<open>option\<close> values, and so are the space
  data, the space type, the shelf settings and the function pointers of a shelf type,
  which it also uses without a test; a dereference of a null pointer is a value of type
  \<open>error\<close>.
  Objects mutated in place (the view, the layout, the block) are passed in and returned.
\<close>

subsection \<open>Host data the file reads\<close>

text \<open>
  The structs below are declared in headers of the host application. Each record lists
  only the members this file touches; records are extensible, so further members do not
  matter.
\<close>

type_synonym CatalogID = "128 word"

datatype ID = ID string

datatype eAssetImportMethod = ASSET_IMPORT_LINK | ASSET_IMPORT_APPEND | ASSET_IMPORT_APPEND_REUSE

datatype eWM_DragDataType = WM_DRAG_ID | WM_DRAG_ASSET

datatype AssetLibraryReference = AssetLibraryReference nat

text \<open>
  \<open>AssetMetaData\<close>: what \<^verbatim>\<open>ED_asset_handle_get_metadata\<close> points to. The code reads
  \<^verbatim>\<open>asset_data->catalog_id\<close> with no test when the view has a catalog filter. The
  pointer is taken to be set for every asset that the asset list iterates, and is a plain
  member here; nothing below is a statement about an asset without metadata.
\<close>

record AssetMetaData =
  catalog_id :: CatalogID

text \<open>
  \<open>AssetHandle\<close>: the members are the results of the \<^verbatim>\<open>ED_asset_handle_get_*\<close>
  accessors the file calls; \<open>local_id\<close> is a pointer that may be null,
  \<open>import_method\<close> a \<^verbatim>\<open>std::optional\<close>, and \<open>full_library_path\<close> the string that
  \<^verbatim>\<open>ED_asset_handle_get_full_library_path\<close> writes into the caller's buffer.
\<close>

record AssetHandle =
  metadata :: AssetMetaData
  relative_path :: string
  name :: string
  preview_icon_id :: int
  local_id :: "ID option"
  full_library_path :: string
  import_method :: "eAssetImportMethod option"

record SpaceLink =
  spacetype :: int

text \<open>\<open>bContext\<close>: \<open>wm_space_data\<close> is what \<^verbatim>\<open>CTX_wm_space_data\<close> returns, null when unset.\<close>

record bContext =
  wm_space_data :: "SpaceLink option"

definition CTX_wm_space_data :: "bContext \<Rightarrow> SpaceLink option" where
  "CTX_wm_space_data C = wm_space_data C"

text \<open>The layout a context menu or a grid is drawn into: the entries placed so far.\<close>

type_synonym uiLayout = "string list"

text \<open>
  \<open>AssetShelfType\<close>: three function pointers, each of which may be null, and a flag word.
  The callbacks receive the shelf type itself as an argument in the C code; here each
  callback is the closure already applied to its own shelf type.
\<close>

record AssetShelfType =
  poll :: "(bContext \<Rightarrow> bool) option"
  asset_poll :: "(AssetHandle \<Rightarrow> bool) option"
  draw_context_menu :: "(bContext \<Rightarrow> AssetHandle \<Rightarrow> uiLayout \<Rightarrow> uiLayout) option"
  flag :: "32 word"

record SpaceType =
  spaceid :: int
  asset_shelf_types :: "AssetShelfType list"

record AssetShelfSettings =
  active_catalog_path :: "string option"
  display_flag :: "32 word"

text \<open>
  The two flag constants come from headers that are not part of this file, so every
  function that tests a flag takes them as a parameter.
\<close>

record dna_flags =
  ASSET_SHELF_TYPE_NO_ASSET_DRAG :: "32 word"
  ASSETSHELF_SHOW_NAMES :: "32 word"

text \<open>
  \<open>AssetCatalogFilter\<close> is an object of the asset system; the view only ever calls
  \<^verbatim>\<open>contains\<close> on it.
\<close>

datatype AssetCatalogFilter = AssetCatalogFilter (contains: "CatalogID \<Rightarrow> bool")

record AssetCatalog =
  catalog_path :: string
  catalog_catalog_id :: CatalogID

record AssetCatalogService =
  find_catalog_by_path :: "string \<Rightarrow> AssetCatalog option"
  create_catalog_filter :: "CatalogID \<Rightarrow> AssetCatalogFilter"

record AssetLibrary =
  catalog_service :: AssetCatalogService

text \<open>
  The global state of the host that the file queries: the registered space types
  (\<^verbatim>\<open>BKE_spacetype_from_id\<close>), the libraries that have finished loading
  (\<^verbatim>\<open>ED_assetlist_library_get_once_available\<close>), the assets of each library in
  iteration order (\<^verbatim>\<open>ED_assetlist_iterate\<close>) and the default tile size
  (\<^verbatim>\<open>ED_asset_shelf_default_tile_width\<close>, \<^verbatim>\<open>ED_asset_shelf_default_tile_height\<close>).
\<close>

record Host =
  spacetypes :: "SpaceType list"
  default_tile_width :: real
  default_tile_height :: real
  libraries :: "AssetLibraryReference \<Rightarrow> AssetLibrary option"
  assetlists :: "AssetLibraryReference \<Rightarrow> AssetHandle list"

definition BKE_spacetype_from_id :: "Host \<Rightarrow> int \<Rightarrow> SpaceType option" where
  "BKE_spacetype_from_id host sid = find (\<lambda>st. spaceid st = sid) (spacetypes host)"

definition ED_assetlist_library_get_once_available ::
  "Host \<Rightarrow> AssetLibraryReference \<Rightarrow> AssetLibrary option" where
  "ED_assetlist_library_get_once_available host library_ref = libraries host library_ref"

datatype error = NullSpaceLink | NullSpaceType | NullShelfSettings | NullDrawContextMenu

text \<open>
  \<^verbatim>\<open>ED_assetlist_iterate\<close>: calls \<open>fn\<close> on each asset in order and stops as soon as
  \<open>fn\<close> returns false. The state \<open>s\<close> is what the C++ lambda captures by reference.
\<close>

fun ED_assetlist_iterate ::
  "AssetHandle list \<Rightarrow> (AssetHandle \<Rightarrow> 's \<Rightarrow> error + bool \<times> 's) \<Rightarrow> 's \<Rightarrow> error + 's" where
  "ED_assetlist_iterate [] fn s = Inr s"
| "ED_assetlist_iterate (asset # rest) fn s =
     (case fn asset s of
        Inl e \<Rightarrow> Inl e
      | Inr (continue, s') \<Rightarrow> if continue then ED_assetlist_iterate rest fn s' else Inr s')"

subsection \<open>The classes of the file\<close>

text \<open>
  The C++ members end in an underscore (\<^verbatim>\<open>asset_\<close>, \<^verbatim>\<open>catalog_filter_\<close>), a form of
  name that is reserved here; each member is named after its class instead:
  \<open>item_asset\<close>, \<open>view_catalog_filter\<close>, \<open>drag_asset\<close>.

  \<open>AssetViewItem\<close> with the members of its base \<^verbatim>\<open>ui::PreviewGridItem\<close> that the
  constructor sets.
\<close>

record AssetViewItem =
  item_identifier :: string
  item_label :: string
  item_preview_icon_id :: int
  item_asset :: AssetHandle
  item_allow_asset_drag :: bool

text \<open>
  \<open>AssetView\<close> with the members of its base \<^verbatim>\<open>ui::AbstractGridView\<close> that the file
  changes: the items appended by \<^verbatim>\<open>add_item\<close> and the tile size (width, height).
\<close>

record AssetView =
  view_library_ref :: AssetLibraryReference
  view_shelf_settings :: AssetShelfSettings
  view_catalog_filter :: "AssetCatalogFilter option"
  view_evil_C :: bContext
  view_items :: "AssetViewItem list"
  view_tile_size :: "(real \<times> real) option"

text \<open>\<open>AssetDragController\<close>: the view it was created for and its own copy of the asset.\<close>

record AssetDragController =
  drag_view :: AssetView
  drag_asset :: AssetHandle

definition AssetView_new ::
  "AssetLibraryReference \<Rightarrow> AssetShelfSettings \<Rightarrow> bContext \<Rightarrow> AssetView" where
  "AssetView_new library_ref shelf_settings evil_C =
     \<lparr>view_library_ref = library_ref, view_shelf_settings = shelf_settings, view_catalog_filter = None,
      view_evil_C = evil_C, view_items = [], view_tile_size = None\<rparr>"

subsection \<open>Which shelf types show an asset\<close>

fun asset_shelf_types_showing_asset_loop ::
  "AssetShelfType list \<Rightarrow> bContext \<Rightarrow> AssetHandle \<Rightarrow> AssetShelfType list \<Rightarrow> AssetShelfType list" where
  "asset_shelf_types_showing_asset_loop [] C asset shelf_types = shelf_types"
| "asset_shelf_types_showing_asset_loop (shelf_type # rest) C asset shelf_types =
     (if (case poll shelf_type of None \<Rightarrow> True | Some p \<Rightarrow> \<not> p C)
      then asset_shelf_types_showing_asset_loop rest C asset shelf_types
      else if (case asset_poll shelf_type of None \<Rightarrow> True | Some ap \<Rightarrow> ap asset)
      then asset_shelf_types_showing_asset_loop rest C asset (shelf_types @ [shelf_type])
      else asset_shelf_types_showing_asset_loop rest C asset shelf_types)"

definition asset_shelf_types_showing_asset ::
  "SpaceType \<Rightarrow> bContext \<Rightarrow> AssetHandle \<Rightarrow> AssetShelfType list" where
  "asset_shelf_types_showing_asset space_type C asset =
     asset_shelf_types_showing_asset_loop (asset_shelf_types space_type) C asset []"

fun shelves_is_any_no_asset_drag :: "dna_flags \<Rightarrow> AssetShelfType list \<Rightarrow> bool" where
  "shelves_is_any_no_asset_drag d [] = False"
| "shelves_is_any_no_asset_drag d (shelf_type # rest) =
     (if flag shelf_type AND ASSET_SHELF_TYPE_NO_ASSET_DRAG d \<noteq> 0 then True
      else shelves_is_any_no_asset_drag d rest)"



subsection \<open>AssetView\<close>

definition AssetViewItem_new :: "AssetHandle \<Rightarrow> string \<Rightarrow> string \<Rightarrow> int \<Rightarrow> AssetViewItem" where
  "AssetViewItem_new asset identifier label preview_icon_id' =
     \<lparr>item_identifier = identifier, item_label = label, item_preview_icon_id = preview_icon_id',
      item_asset = asset, item_allow_asset_drag = True\<rparr>"

definition disable_asset_drag :: "AssetViewItem \<Rightarrow> AssetViewItem" where
  "disable_asset_drag item = item\<lparr>item_allow_asset_drag := False\<rparr>"

text \<open>\<^verbatim>\<open>add_item\<close> of the base class: the new item goes to the end of the view's items.\<close>

definition add_item :: "AssetViewItem \<Rightarrow> AssetView \<Rightarrow> AssetView" where
  "add_item item view = view\<lparr>view_items := view_items view @ [item]\<rparr>"

text \<open>
  The lambda that \<^verbatim>\<open>build_items\<close> hands to \<^verbatim>\<open>ED_assetlist_iterate\<close>. It captures the
  view and \<open>space_type\<close> by reference; \<^verbatim>\<open>*space_type\<close> is evaluated here, once per asset.
  The reference \<^verbatim>\<open>item\<close> returned by \<^verbatim>\<open>add_item\<close> is the last item of the view.
\<close>

definition build_items_fn ::
  "dna_flags \<Rightarrow> SpaceType option \<Rightarrow> AssetHandle \<Rightarrow> AssetView \<Rightarrow> error + bool \<times> AssetView" where
  "build_items_fn d space_type asset view =
     (case space_type of
        None \<Rightarrow> Inl NullSpaceType
      | Some st \<Rightarrow>
          let shelves_showing_asset = asset_shelf_types_showing_asset st (view_evil_C view) asset in
          if List.null shelves_showing_asset then Inr (True, view)
          else
            let asset_data = metadata asset in
            if (case view_catalog_filter view of
                  None \<Rightarrow> False
                | Some f \<Rightarrow> \<not> contains f (catalog_id asset_data))
            then Inr (True, view)
            else
              let show_names = (display_flag (view_shelf_settings view) AND ASSETSHELF_SHOW_NAMES d \<noteq> 0);
                  identifier = relative_path asset;
                  name' = (if show_names then name asset else '''');
                  preview_id = preview_icon_id asset;
                  view' = add_item (AssetViewItem_new asset identifier name' preview_id) view
              in if shelves_is_any_no_asset_drag d shelves_showing_asset
                 then Inr (True, view'\<lparr>view_items := butlast (view_items view') @
                                                    [disable_asset_drag (last (view_items view'))]\<rparr>)
                 else Inr (True, view'))"

definition build_items :: "dna_flags \<Rightarrow> Host \<Rightarrow> AssetView \<Rightarrow> error + AssetView" where
  "build_items d host view =
     (case ED_assetlist_library_get_once_available host (view_library_ref view) of
        None \<Rightarrow> Inr view
      | Some library \<Rightarrow>
          (case CTX_wm_space_data (view_evil_C view) of
             None \<Rightarrow> Inl NullSpaceLink
           | Some space_link \<Rightarrow>
               let space_type = BKE_spacetype_from_id host (spacetype space_link) in
               ED_assetlist_iterate (assetlists host (view_library_ref view))
                 (build_items_fn d space_type) view))"

definition set_catalog_filter :: "AssetCatalogFilter option \<Rightarrow> AssetView \<Rightarrow> AssetView" where
  "set_catalog_filter catalog_filter view =
     (case catalog_filter of
        Some f \<Rightarrow> view\<lparr>view_catalog_filter := Some f\<rparr>
      | None \<Rightarrow> view\<lparr>view_catalog_filter := None\<rparr>)"

definition set_tile_size :: "real \<Rightarrow> real \<Rightarrow> AssetView \<Rightarrow> AssetView" where
  "set_tile_size tile_width tile_height view = view\<lparr>view_tile_size := Some (tile_width, tile_height)\<rparr>"

definition catalog_filter_from_shelf_settings ::
  "AssetShelfSettings option \<Rightarrow> AssetLibrary \<Rightarrow> AssetCatalogFilter option" where
  "catalog_filter_from_shelf_settings shelf_settings library =
     (case shelf_settings of
        None \<Rightarrow> None
      | Some settings \<Rightarrow>
          (case active_catalog_path settings of
             None \<Rightarrow> None
           | Some path \<Rightarrow>
               (case find_catalog_by_path (catalog_service library) path of
                  None \<Rightarrow> None
                | Some active_catalog \<Rightarrow>
                    Some (create_catalog_filter (catalog_service library)
                            (catalog_catalog_id active_catalog)))))"

subsection \<open>AssetViewItem\<close>

text \<open>
  The loop of \<^verbatim>\<open>build_context_menu\<close>. The state is the layout column the callbacks draw
  into, together with the shelf types whose callback has been called so far, in call
  order. Calling a null \<^verbatim>\<open>draw_context_menu\<close> is an error.
\<close>

fun build_context_menu_loop ::
  "AssetShelfType list \<Rightarrow> bContext \<Rightarrow> AssetHandle \<Rightarrow> AssetShelfType list \<times> uiLayout \<Rightarrow>
   error + AssetShelfType list \<times> uiLayout" where
  "build_context_menu_loop [] C asset (called, column) = Inr (called, column)"
| "build_context_menu_loop (shelf # rest) C asset (called, column) =
     (case draw_context_menu shelf of
        None \<Rightarrow> Inl NullDrawContextMenu
      | Some draw \<Rightarrow>
          build_context_menu_loop rest C asset (called @ [shelf], draw C asset column))"

definition build_context_menu ::
  "Host \<Rightarrow> AssetViewItem \<Rightarrow> bContext \<Rightarrow> uiLayout \<Rightarrow> error + AssetShelfType list \<times> uiLayout" where
  "build_context_menu host item C column =
     (case CTX_wm_space_data C of
        None \<Rightarrow> Inl NullSpaceLink
      | Some space_link \<Rightarrow>
          (case BKE_spacetype_from_id host (spacetype space_link) of
             None \<Rightarrow> Inl NullSpaceType
           | Some space_type \<Rightarrow>
               let shelves_showing_asset =
                     asset_shelf_types_showing_asset space_type C (item_asset item)
               in build_context_menu_loop shelves_showing_asset C (item_asset item) ([], column)))"

text \<open>\<^verbatim>\<open>get_view()\<close> is the view the item was added to; it is passed in here.\<close>

definition create_drag_controller :: "AssetView \<Rightarrow> AssetViewItem \<Rightarrow> AssetDragController option" where
  "create_drag_controller view item =
     (if item_allow_asset_drag item then Some \<lparr>drag_view = view, drag_asset = item_asset item\<rparr>
      else None)"

subsection \<open>Dragging\<close>

text \<open>
  \<^verbatim>\<open>WM_drag_create_asset_data\<close> of the window manager allocates the payload of an asset
  drag from its four arguments. \<^verbatim>\<open>create_drag_data\<close> returns a \<^verbatim>\<open>void *\<close> that points
  either to the local ID or to such a payload.
\<close>

record wmDragAsset =
  dragged_asset :: AssetHandle
  dragged_path :: string
  dragged_import_method :: eAssetImportMethod
  dragged_evil_C :: bContext

datatype drag_data = DragLocalID ID | DragAssetData wmDragAsset

definition WM_drag_create_asset_data ::
  "AssetHandle \<Rightarrow> string \<Rightarrow> eAssetImportMethod \<Rightarrow> bContext \<Rightarrow> wmDragAsset" where
  "WM_drag_create_asset_data asset path import_method' evil_C =
     \<lparr>dragged_asset = asset, dragged_path = path, dragged_import_method = import_method',
      dragged_evil_C = evil_C\<rparr>"

definition get_drag_type :: "AssetDragController \<Rightarrow> eWM_DragDataType" where
  "get_drag_type c =
     (case local_id (drag_asset c) of Some local_id' \<Rightarrow> WM_DRAG_ID | None \<Rightarrow> WM_DRAG_ASSET)"

definition create_drag_data :: "AssetDragController \<Rightarrow> drag_data" where
  "create_drag_data c =
     (case local_id (drag_asset c) of
        Some local_id' \<Rightarrow> DragLocalID local_id'
      | None \<Rightarrow>
          let asset_blend_path = full_library_path (drag_asset c);
              import_method' = (case import_method (drag_asset c) of
                                  Some m \<Rightarrow> m
                                | None \<Rightarrow> ASSET_IMPORT_APPEND_REUSE);
              asset_view = drag_view c
          in DragAssetData (WM_drag_create_asset_data (drag_asset c) asset_blend_path
                              import_method' (view_evil_C asset_view)))"

subsection \<open>build\_asset\_view\<close>

text \<open>
  What \<^verbatim>\<open>build_asset_view\<close> writes to: the fetch and preview-job requests made to the
  asset list storage, the views registered in the layout's block, and the layout. The
  \<open>libraries\<close> of the host are the libraries as the lookup sees them, after the two
  requests.
\<close>

record ui_state =
  storage_fetched :: "AssetLibraryReference list"
  previews_jobs :: "AssetLibraryReference list"
  block_views :: "(string \<times> AssetView) list"
  layout :: uiLayout

definition ED_assetlist_storage_fetch :: "AssetLibraryReference \<Rightarrow> ui_state \<Rightarrow> ui_state" where
  "ED_assetlist_storage_fetch library_ref ui = ui\<lparr>storage_fetched := storage_fetched ui @ [library_ref]\<rparr>"

definition ED_assetlist_ensure_previews_job :: "AssetLibraryReference \<Rightarrow> ui_state \<Rightarrow> ui_state" where
  "ED_assetlist_ensure_previews_job library_ref ui = ui\<lparr>previews_jobs := previews_jobs ui @ [library_ref]\<rparr>"

text \<open>
  \<open>build_grid_view\<close> stands for \<^verbatim>\<open>ui::GridViewBuilder::build_grid_view\<close> of the view
  framework: given the registered view and the layout it returns both as it leaves them,
  or fails. The view is owned by the block, so the block holds the view as the builder
  left it. \<^verbatim>\<open>*shelf_settings\<close> is evaluated with no test when the view is constructed.
\<close>

definition build_asset_view ::
  "(AssetView \<Rightarrow> uiLayout \<Rightarrow> error + AssetView \<times> uiLayout) \<Rightarrow> Host \<Rightarrow> AssetLibraryReference \<Rightarrow>
   AssetShelfSettings option \<Rightarrow> bContext \<Rightarrow> ui_state \<Rightarrow> error + ui_state" where
  "build_asset_view build_grid_view host library_ref shelf_settings C ui =
     (let ui1 = ED_assetlist_storage_fetch library_ref ui;
          ui2 = ED_assetlist_ensure_previews_job library_ref ui1
      in case ED_assetlist_library_get_once_available host library_ref of
           None \<Rightarrow> Inr ui2
         | Some library \<Rightarrow>
             let tile_width = default_tile_width host;
                 tile_height = default_tile_height host
             in (case shelf_settings of
                   None \<Rightarrow> Inl NullShelfSettings
                 | Some settings \<Rightarrow>
                     let asset_view = AssetView_new library_ref settings C;
                         asset_view = set_catalog_filter
                                        (catalog_filter_from_shelf_settings shelf_settings library)
                                        asset_view;
                         asset_view = set_tile_size tile_width tile_height asset_view
                     in (case build_grid_view asset_view (layout ui2) of
                           Inl e \<Rightarrow> Inl e
                         | Inr (grid_view, layout') \<Rightarrow>
                             Inr (ui2\<lparr>block_views := block_views ui2 @
                                                        [(''asset shelf asset view'', grid_view)],
                                      layout := layout'\<rparr>))))"

subsection \<open>An example configuration\<close>

text \<open>
  A host with one registered space type (id 1) that has two shelf types, a library with
  one catalog and two assets: a brush from a library file and a cube that has a local ID.
\<close>

definition ex_flags :: dna_flags where
  "ex_flags = \<lparr>ASSET_SHELF_TYPE_NO_ASSET_DRAG = 1, ASSETSHELF_SHOW_NAMES = 1\<rparr>"

definition ex_context :: bContext where
  "ex_context = \<lparr>wm_space_data = Some \<lparr>spacetype = 1\<rparr>\<rparr>"

definition ex_brush :: AssetHandle where
  "ex_brush = \<lparr>metadata = \<lparr>catalog_id = 1\<rparr>, relative_path = ''Brush/Clay'', name = ''Clay'',
     preview_icon_id = 7, local_id = None, full_library_path = ''/lib/brushes.blend/Brush/Clay'',
     import_method = None\<rparr>"

definition ex_cube :: AssetHandle where
  "ex_cube = \<lparr>metadata = \<lparr>catalog_id = 2\<rparr>, relative_path = ''Object/Cube'', name = ''Cube'',
     preview_icon_id = 8, local_id = Some (ID ''OBCube''), full_library_path = ''/Object/Cube'',
     import_method = Some ASSET_IMPORT_LINK\<rparr>"

definition ex_shelf_brushes :: AssetShelfType where
  "ex_shelf_brushes = \<lparr>poll = Some (\<lambda>C. True), asset_poll = Some (\<lambda>asset. local_id asset = None),
     draw_context_menu = Some (\<lambda>C asset column. column @ [''brush menu'']), flag = 1\<rparr>"

definition ex_shelf_all :: AssetShelfType where
  "ex_shelf_all = \<lparr>poll = Some (\<lambda>C. True), asset_poll = None,
     draw_context_menu = Some (\<lambda>C asset column. column @ [''asset menu'']), flag = 0\<rparr>"

definition ex_shelf_no_menu :: AssetShelfType where
  "ex_shelf_no_menu = \<lparr>poll = Some (\<lambda>C. True), asset_poll = None, draw_context_menu = None,
     flag = 0\<rparr>"

definition ex_library :: AssetLibrary where
  "ex_library = \<lparr>catalog_service =
     \<lparr>find_catalog_by_path = (\<lambda>path. if path = ''Brushes''
                                       then Some \<lparr>catalog_path = ''Brushes'', catalog_catalog_id = 1\<rparr>
                                       else None),
      create_catalog_filter = (\<lambda>cid. AssetCatalogFilter (\<lambda>c. c = cid))\<rparr>\<rparr>"

definition ex_host :: Host where
  "ex_host = \<lparr>spacetypes = [\<lparr>spaceid = 1, asset_shelf_types = [ex_shelf_brushes, ex_shelf_all]\<rparr>],
     default_tile_width = 64, default_tile_height = 64,
     libraries = (\<lambda>library_ref. if library_ref = AssetLibraryReference 0 then Some ex_library else None),
     assetlists = (\<lambda>library_ref. [ex_brush, ex_cube])\<rparr>"

definition ex_view :: AssetView where
  "ex_view = set_catalog_filter (Some (AssetCatalogFilter (\<lambda>c. c = 1)))
     (AssetView_new (AssetLibraryReference 0)
        \<lparr>active_catalog_path = Some ''Brushes'', display_flag = 1\<rparr> ex_context)"

subsection \<open>Auxiliary facts\<close>

lemma showing_loop_filter:
  "asset_shelf_types_showing_asset_loop xs C a acc =
     acc @ filter (\<lambda>s. (case poll s of None \<Rightarrow> False | Some p \<Rightarrow> p C) \<and>
                        (case asset_poll s of None \<Rightarrow> True | Some ap \<Rightarrow> ap a)) xs"
  by (induction xs arbitrary: acc) (auto split: option.splits)

lemma showing_filter:
  "asset_shelf_types_showing_asset st C a =
     filter (\<lambda>s. (case poll s of None \<Rightarrow> False | Some p \<Rightarrow> p C) \<and>
                  (case asset_poll s of None \<Rightarrow> True | Some ap \<Rightarrow> ap a)) (asset_shelf_types st)"
  by (simp add: asset_shelf_types_showing_asset_def showing_loop_filter)

lemma any_no_asset_drag_iff:
  "shelves_is_any_no_asset_drag d shelves \<longleftrightarrow>
     (\<exists>s \<in> set shelves. flag s AND ASSET_SHELF_TYPE_NO_ASSET_DRAG d \<noteq> 0)"
  by (induction shelves) auto

lemma build_items_fn_Some:
  "build_items_fn d (Some st) a v =
     Inr (True,
       if asset_shelf_types_showing_asset st (view_evil_C v) a \<noteq> [] \<and>
          (case view_catalog_filter v of None \<Rightarrow> True | Some f \<Rightarrow> contains f (catalog_id (metadata a)))
       then v\<lparr>view_items := view_items v @
              [\<lparr>item_identifier = relative_path a,
                item_label = (if display_flag (view_shelf_settings v) AND ASSETSHELF_SHOW_NAMES d \<noteq> 0
                              then name a else ''''),
                item_preview_icon_id = preview_icon_id a,
                item_asset = a,
                item_allow_asset_drag =
                  (\<not> shelves_is_any_no_asset_drag d
                        (asset_shelf_types_showing_asset st (view_evil_C v) a))\<rparr>]\<rparr>
       else v)"
  by (simp add: build_items_fn_def Let_def add_item_def AssetViewItem_new_def
        disable_asset_drag_def split: option.splits)

lemma iterate_build_items_fn:
  "ED_assetlist_iterate assets (build_items_fn d (Some st)) v =
     Inr (v\<lparr>view_items := view_items v @
        map (\<lambda>a. \<lparr>item_identifier = relative_path a,
                item_label = (if display_flag (view_shelf_settings v) AND ASSETSHELF_SHOW_NAMES d \<noteq> 0
                              then name a else ''''),
                item_preview_icon_id = preview_icon_id a,
                item_asset = a,
                item_allow_asset_drag =
                  (\<not> shelves_is_any_no_asset_drag d
                        (asset_shelf_types_showing_asset st (view_evil_C v) a))\<rparr>)
          (filter (\<lambda>a. asset_shelf_types_showing_asset st (view_evil_C v) a \<noteq> [] \<and>
                        (case view_catalog_filter v of None \<Rightarrow> True
                         | Some f \<Rightarrow> contains f (catalog_id (metadata a)))) assets)\<rparr>)"
proof (induction assets arbitrary: v)
  case Nil
  show ?case by simp
next
  case (Cons a assets)
  show ?case
  proof (cases "asset_shelf_types_showing_asset st (view_evil_C v) a \<noteq> [] \<and>
                (case view_catalog_filter v of None \<Rightarrow> True
                 | Some f \<Rightarrow> contains f (catalog_id (metadata a)))")
    case True
    then show ?thesis
      apply (subst ED_assetlist_iterate.simps(2))
      apply (subst build_items_fn_Some)
      apply (simp only: if_True sum.case prod.case)
      apply (subst Cons.IH)
      apply simp
      done
  next
    case False
    then show ?thesis
      apply (subst ED_assetlist_iterate.simps(2))
      apply (subst build_items_fn_Some)
      apply (simp only: if_False if_True sum.case prod.case)
      apply (subst Cons.IH)
      apply simp
      done
  qed
qed

lemma iterate_build_items_fn_None:
  "ED_assetlist_iterate assets (build_items_fn d None) v =
     (if assets = [] then Inr v else Inl NullSpaceType)"
  by (cases assets) (simp_all add: build_items_fn_def)

lemma build_items_available:
  assumes "ED_assetlist_library_get_once_available host (view_library_ref view) = Some library"
    and "CTX_wm_space_data (view_evil_C view) = Some space_link"
    and "BKE_spacetype_from_id host (spacetype space_link) = Some space_type"
  shows "\<exists>added.
     build_items d host view = Inr (view\<lparr>view_items := view_items view @ added\<rparr>) \<and>
     map item_asset added =
       filter (\<lambda>a. asset_shelf_types_showing_asset space_type (view_evil_C view) a \<noteq> [] \<and>
                     (case view_catalog_filter view of None \<Rightarrow> True
                      | Some f \<Rightarrow> contains f (catalog_id (metadata a))))
         (assetlists host (view_library_ref view)) \<and>
     (\<forall>item \<in> set added.
        item_identifier item = relative_path (item_asset item) \<and>
        item_label item =
          (if display_flag (view_shelf_settings view) AND ASSETSHELF_SHOW_NAMES d \<noteq> 0
           then name (item_asset item) else []) \<and>
        item_preview_icon_id item = preview_icon_id (item_asset item) \<and>
        item_allow_asset_drag item =
          (\<not> shelves_is_any_no_asset_drag d
                (asset_shelf_types_showing_asset space_type (view_evil_C view) (item_asset item))))"
proof -
  have "build_items d host view =
          ED_assetlist_iterate (assetlists host (view_library_ref view))
            (build_items_fn d (Some space_type)) view"
    using assms by (simp add: build_items_def)
  then show ?thesis
    unfolding iterate_build_items_fn
    by (intro exI conjI, assumption) (auto simp: comp_def)
qed

lemma ex_view_library:
  "ED_assetlist_library_get_once_available ex_host (view_library_ref ex_view) = Some ex_library"
  by (simp add: ED_assetlist_library_get_once_available_def ex_host_def ex_view_def
        set_catalog_filter_def AssetView_new_def)

lemma ex_view_space_link:
  "CTX_wm_space_data (view_evil_C ex_view) = Some \<lparr>spacetype = 1\<rparr>"
  by (simp add: CTX_wm_space_data_def ex_view_def ex_context_def set_catalog_filter_def
        AssetView_new_def)

lemma ex_space_type:
  "BKE_spacetype_from_id ex_host (spacetype \<lparr>spacetype = 1\<rparr>) =
     Some \<lparr>spaceid = 1, asset_shelf_types = [ex_shelf_brushes, ex_shelf_all]\<rparr>"
  by (simp add: BKE_spacetype_from_id_def ex_host_def)

lemma ex_showing_brush:
  "asset_shelf_types_showing_asset \<lparr>spaceid = 1, asset_shelf_types = [ex_shelf_brushes, ex_shelf_all]\<rparr>
     ex_context ex_brush = [ex_shelf_brushes, ex_shelf_all]"
  by (simp add: asset_shelf_types_showing_asset_def ex_shelf_brushes_def ex_shelf_all_def
        ex_brush_def)

lemma ex_showing_cube:
  "asset_shelf_types_showing_asset \<lparr>spaceid = 1, asset_shelf_types = [ex_shelf_brushes, ex_shelf_all]\<rparr>
     ex_context ex_cube = [ex_shelf_all]"
  by (simp add: asset_shelf_types_showing_asset_def ex_shelf_brushes_def ex_shelf_all_def
        ex_cube_def)

lemma ex_view_fields:
  "view_evil_C ex_view = ex_context"
  "view_items ex_view = []"
  "view_catalog_filter ex_view = Some (AssetCatalogFilter (\<lambda>c. c = 1))"
  "view_library_ref ex_view = AssetLibraryReference 0"
  "view_shelf_settings ex_view = \<lparr>active_catalog_path = Some ''Brushes'', display_flag = 1\<rparr>"
  by (simp_all add: ex_view_def set_catalog_filter_def AssetView_new_def)

lemma ex_assets:
  "assetlists ex_host library_ref = [ex_brush, ex_cube]"
  by (simp add: ex_host_def)

lemma ex_catalogs:
  "catalog_id (metadata ex_brush) = 1" "catalog_id (metadata ex_cube) = 2"
  by (simp_all add: ex_brush_def ex_cube_def)

lemma build_context_menu_loop_Inr:
  assumes "\<forall>shelf \<in> set shelves. draw_context_menu shelf \<noteq> None"
  shows "build_context_menu_loop shelves C asset (called, column) =
           Inr (called @ shelves,
                fold (\<lambda>shelf. the (draw_context_menu shelf) C asset) shelves column)"
  using assms
proof (induction shelves arbitrary: called column)
  case Nil
  show ?case by simp
next
  case (Cons shelf rest)
  from Cons.prems obtain draw where d: "draw_context_menu shelf = Some draw"
    by auto
  from Cons.prems have r: "\<forall>s \<in> set rest. draw_context_menu s \<noteq> None"
    by simp
  show ?case
    by (simp add: d Cons.IH [OF r])
qed

lemma build_context_menu_loop_Inl:
  "build_context_menu_loop shelves C asset st = Inl e \<longleftrightarrow>
     e = NullDrawContextMenu \<and> (\<exists>shelf \<in> set shelves. draw_context_menu shelf = None)"
proof (induction shelves arbitrary: st)
  case Nil
  show ?case by (cases st) simp
next
  case (Cons shelf rest)
  show ?case
    by (cases st; cases "draw_context_menu shelf") (auto simp: Cons.IH)
qed

lemma build_context_menu_all_drawn:
  assumes "CTX_wm_space_data C = Some space_link"
    and "BKE_spacetype_from_id host (spacetype space_link) = Some space_type"
    and "\<forall>shelf \<in> set (asset_shelf_types_showing_asset space_type C (item_asset item)).
           draw_context_menu shelf \<noteq> None"
  shows "build_context_menu host item C column =
           Inr (asset_shelf_types_showing_asset space_type C (item_asset item),
                fold (\<lambda>shelf. the (draw_context_menu shelf) C (item_asset item))
                  (asset_shelf_types_showing_asset space_type C (item_asset item)) column)"
  using assms(1,2) build_context_menu_loop_Inr [OF assms(3), of C "item_asset item" "[]" column]
  by (simp add: build_context_menu_def)

lemma build_items_Inl:
  "build_items d host view = Inl e \<longleftrightarrow>
     ED_assetlist_library_get_once_available host (view_library_ref view) \<noteq> None \<and>
     (case CTX_wm_space_data (view_evil_C view) of
        None \<Rightarrow> e = NullSpaceLink
      | Some space_link \<Rightarrow>
          BKE_spacetype_from_id host (spacetype space_link) = None \<and>
          assetlists host (view_library_ref view) \<noteq> [] \<and> e = NullSpaceType)"
proof (cases "ED_assetlist_library_get_once_available host (view_library_ref view)")
  case None
  then show ?thesis by (simp add: build_items_def)
next
  case (Some library)
  show ?thesis
  proof (cases "CTX_wm_space_data (view_evil_C view)")
    case None
    with Some show ?thesis by (auto simp: build_items_def)
  next
    case sl: (Some space_link)
    show ?thesis
    proof (cases "BKE_spacetype_from_id host (spacetype space_link)")
      case None
      with Some sl show ?thesis
        by (auto simp: build_items_def iterate_build_items_fn_None)
    next
      case st: (Some space_type)
      with Some sl show ?thesis
        by (simp add: build_items_def iterate_build_items_fn)
    qed
  qed
qed

lemma build_context_menu_Inl:
  "build_context_menu host item C column = Inl e \<longleftrightarrow>
     (case CTX_wm_space_data C of
        None \<Rightarrow> e = NullSpaceLink
      | Some space_link \<Rightarrow>
          (case BKE_spacetype_from_id host (spacetype space_link) of
             None \<Rightarrow> e = NullSpaceType
           | Some space_type \<Rightarrow>
               e = NullDrawContextMenu \<and>
               (\<exists>shelf \<in> set (asset_shelf_types_showing_asset space_type C (item_asset item)).
                  draw_context_menu shelf = None)))"
  by (auto simp: build_context_menu_def build_context_menu_loop_Inl split: option.splits)

lemma ex_no_asset_drag:
  "flag ex_shelf_brushes AND ASSET_SHELF_TYPE_NO_ASSET_DRAG ex_flags \<noteq> 0"
  "flag ex_shelf_all AND ASSET_SHELF_TYPE_NO_ASSET_DRAG ex_flags = 0"
  by (simp_all add: ex_flags_def ex_shelf_brushes_def ex_shelf_all_def)

lemma ex_brush_fields:
  "relative_path ex_brush = ''Brush/Clay''" "name ex_brush = ''Clay''"
  "preview_icon_id ex_brush = 7" "local_id ex_brush = None"
  by (simp_all add: ex_brush_def)

lemma ex_show_names:
  "1 AND ASSETSHELF_SHOW_NAMES ex_flags \<noteq> 0"
  by (simp add: ex_flags_def)

lemma ex_build_items:
  "build_items ex_flags ex_host ex_view =
     Inr (ex_view\<lparr>view_items :=
       [\<lparr>item_identifier = ''Brush/Clay'', item_label = ''Clay'', item_preview_icon_id = 7,
         item_asset = ex_brush, item_allow_asset_drag = False\<rparr>]\<rparr>)"
proof -
  have 1: "build_items_fn ex_flags
             (Some \<lparr>spaceid = 1, asset_shelf_types = [ex_shelf_brushes, ex_shelf_all]\<rparr>)
             ex_brush ex_view =
           Inr (True, ex_view\<lparr>view_items :=
             [\<lparr>item_identifier = ''Brush/Clay'', item_label = ''Clay'', item_preview_icon_id = 7,
               item_asset = ex_brush, item_allow_asset_drag = False\<rparr>]\<rparr>)"
    by (simp add: build_items_fn_Some ex_view_fields ex_showing_brush ex_catalogs ex_no_asset_drag
          ex_brush_fields ex_show_names)
  have 2: "build_items_fn ex_flags
             (Some \<lparr>spaceid = 1, asset_shelf_types = [ex_shelf_brushes, ex_shelf_all]\<rparr>)
             ex_cube (ex_view\<lparr>view_items := items\<rparr>) =
           Inr (True, ex_view\<lparr>view_items := items\<rparr>)" for items
    by (simp add: build_items_fn_Some ex_view_fields ex_showing_cube ex_catalogs)
  show ?thesis
    by (simp add: build_items_def ex_view_library ex_view_space_link ex_space_type [simplified]
          ex_assets 1 2)
qed

subsection \<open>Claims\<close>

text \<open>
  C1. When the library is available and the context has a registered space type,
  \<^verbatim>\<open>build_items\<close> returns, and the assets it has added an item for are, in iteration
  order, exactly the assets of the library for which the shelf types showing the asset
  (\<open>asset_shelf_types_showing_asset\<close>) are not empty and the view either has no catalog
  filter or has one that contains the asset's catalog id. Every other asset is skipped
  and the iteration goes on to the next one.
\<close>

theorem build_items_adds_item_iff_visible:
  assumes "ED_assetlist_library_get_once_available host (view_library_ref view) = Some library"
    and "CTX_wm_space_data (view_evil_C view) = Some space_link"
    and "BKE_spacetype_from_id host (spacetype space_link) = Some space_type"
  shows "\<exists>view' added.
           build_items d host view = Inr view' \<and>
           view_items view' = view_items view @ added \<and>
           map item_asset added =
             filter (\<lambda>asset.
                       asset_shelf_types_showing_asset space_type (view_evil_C view) asset \<noteq> [] \<and>
                       (view_catalog_filter view = None \<or>
                        (\<exists>f. view_catalog_filter view = Some f \<and>
                             contains f (catalog_id (metadata asset)))))
               (assetlists host (view_library_ref view))"
proof -
  obtain added where
    b: "build_items d host view = Inr (view\<lparr>view_items := view_items view @ added\<rparr>)" and
    m: "map item_asset added =
          filter (\<lambda>a. asset_shelf_types_showing_asset space_type (view_evil_C view) a \<noteq> [] \<and>
                        (case view_catalog_filter view of None \<Rightarrow> True
                         | Some f \<Rightarrow> contains f (catalog_id (metadata a))))
            (assetlists host (view_library_ref view))"
    using build_items_available [OF assms, of d] by blast
  have same: "(case view_catalog_filter view of None \<Rightarrow> True
               | Some f \<Rightarrow> contains f (catalog_id (metadata a))) =
              (view_catalog_filter view = None \<or>
               (\<exists>f. view_catalog_filter view = Some f \<and> contains f (catalog_id (metadata a))))"
    for a :: AssetHandle
    by (cases "view_catalog_filter view") simp_all
  show ?thesis
    using b m unfolding same
    by (intro exI [of _ "view\<lparr>view_items := view_items view @ added\<rparr>"] exI [of _ added]) simp
qed

theorem build_items_adds_item_iff_visible_witness:
  "ED_assetlist_library_get_once_available ex_host (view_library_ref ex_view) = Some ex_library \<and>
   CTX_wm_space_data (view_evil_C ex_view) = Some \<lparr>spacetype = 1\<rparr> \<and>
   BKE_spacetype_from_id ex_host (spacetype \<lparr>spacetype = 1\<rparr>) =
     Some \<lparr>spaceid = 1, asset_shelf_types = [ex_shelf_brushes, ex_shelf_all]\<rparr> \<and>
   (\<exists>view' added. build_items ex_flags ex_host ex_view = Inr view' \<and>
      view_items view' = view_items ex_view @ added \<and> map item_asset added = [ex_brush])"
proof -
  note h = ex_view_library ex_view_space_link ex_space_type
  have "\<exists>view' added. build_items ex_flags ex_host ex_view = Inr view' \<and>
          view_items view' = view_items ex_view @ added \<and> map item_asset added = [ex_brush]"
    using build_items_adds_item_iff_visible [OF h, of ex_flags]
    by (simp add: ex_view_fields ex_assets ex_showing_brush ex_showing_cube ex_catalogs)
  with h show ?thesis by simp
qed

text \<open>
  C2. A shelf type whose \<^verbatim>\<open>poll\<close> callback is absent is left out of the result of
  \<open>asset_shelf_types_showing_asset\<close>: for a space type whose only shelf type has neither
  a \<^verbatim>\<open>poll\<close> nor an \<^verbatim>\<open>asset_poll\<close> callback the result is empty, whatever the context
  and the asset are.
\<close>

theorem asset_shelf_types_showing_asset_absent_poll:
  "asset_shelf_types_showing_asset
     \<lparr>spaceid = 1, asset_shelf_types =
        [\<lparr>poll = None, asset_poll = None, draw_context_menu = None, flag = 0\<rparr>]\<rparr>
     C asset = []"
  by (simp add: asset_shelf_types_showing_asset_def)

text \<open>
  C3. The library and the active catalog are tested before use, the space data and the
  space type are not. \<^verbatim>\<open>build_items\<close> returns the view unchanged when the library is
  not available. With a library it dereferences a null space data pointer exactly when
  the context has no space data, and a null space type exactly when the space type of
  the space data is not registered and there is an asset to iterate.
  \<^verbatim>\<open>build_context_menu\<close> dereferences a null space data pointer exactly when the context
  has no space data, and a null space type exactly when the space type of the space data
  is not registered. A catalog path that names no catalog of the library gives no filter.
\<close>

theorem null_dereference_iff_space_unchecked:
  "(ED_assetlist_library_get_once_available host (view_library_ref view) = None \<longrightarrow>
      build_items d host view = Inr view) \<and>
   (build_items d host view = Inl NullSpaceLink \<longleftrightarrow>
      ED_assetlist_library_get_once_available host (view_library_ref view) \<noteq> None \<and>
      CTX_wm_space_data (view_evil_C view) = None) \<and>
   (build_items d host view = Inl NullSpaceType \<longleftrightarrow>
      ED_assetlist_library_get_once_available host (view_library_ref view) \<noteq> None \<and>
      (\<exists>space_link. CTX_wm_space_data (view_evil_C view) = Some space_link \<and>
         BKE_spacetype_from_id host (spacetype space_link) = None) \<and>
      assetlists host (view_library_ref view) \<noteq> []) \<and>
   (build_context_menu host item C column = Inl NullSpaceLink \<longleftrightarrow>
      CTX_wm_space_data C = None) \<and>
   (build_context_menu host item C column = Inl NullSpaceType \<longleftrightarrow>
      (\<exists>space_link. CTX_wm_space_data C = Some space_link \<and>
         BKE_spacetype_from_id host (spacetype space_link) = None)) \<and>
   (\<forall>settings path.
      shelf_settings = Some settings \<and> active_catalog_path settings = Some path \<and>
      find_catalog_by_path (catalog_service library) path = None \<longrightarrow>
      catalog_filter_from_shelf_settings shelf_settings library = None)"
proof (intro conjI)
  show "ED_assetlist_library_get_once_available host (view_library_ref view) = None \<longrightarrow>
      build_items d host view = Inr view"
    by (simp add: build_items_def)
  show "build_items d host view = Inl NullSpaceLink \<longleftrightarrow>
      ED_assetlist_library_get_once_available host (view_library_ref view) \<noteq> None \<and>
      CTX_wm_space_data (view_evil_C view) = None"
    unfolding build_items_Inl by (auto split: option.splits)
  show "build_items d host view = Inl NullSpaceType \<longleftrightarrow>
      ED_assetlist_library_get_once_available host (view_library_ref view) \<noteq> None \<and>
      (\<exists>space_link. CTX_wm_space_data (view_evil_C view) = Some space_link \<and>
         BKE_spacetype_from_id host (spacetype space_link) = None) \<and>
      assetlists host (view_library_ref view) \<noteq> []"
    unfolding build_items_Inl by (auto split: option.splits)
  show "build_context_menu host item C column = Inl NullSpaceLink \<longleftrightarrow>
      CTX_wm_space_data C = None"
    unfolding build_context_menu_Inl by (auto split: option.splits)
  show "build_context_menu host item C column = Inl NullSpaceType \<longleftrightarrow>
      (\<exists>space_link. CTX_wm_space_data C = Some space_link \<and>
         BKE_spacetype_from_id host (spacetype space_link) = None)"
    unfolding build_context_menu_Inl by (auto split: option.splits)
  show "\<forall>settings path.
      shelf_settings = Some settings \<and> active_catalog_path settings = Some path \<and>
      find_catalog_by_path (catalog_service library) path = None \<longrightarrow>
      catalog_filter_from_shelf_settings shelf_settings library = None"
    by (simp add: catalog_filter_from_shelf_settings_def)
qed

theorem null_dereference_iff_space_unchecked_witness:
  "ED_assetlist_library_get_once_available ex_host (AssetLibraryReference 3) = None \<and>
   build_items ex_flags ex_host (ex_view\<lparr>view_library_ref := AssetLibraryReference 3\<rparr>) =
     Inr (ex_view\<lparr>view_library_ref := AssetLibraryReference 3\<rparr>) \<and>
   build_items ex_flags ex_host (ex_view\<lparr>view_evil_C := \<lparr>wm_space_data = Some \<lparr>spacetype = 5\<rparr>\<rparr>\<rparr>)
     = Inl NullSpaceType \<and>
   build_context_menu ex_host (AssetViewItem_new ex_brush ''Brush/Clay'' ''Clay'' 7)
     \<lparr>wm_space_data = Some \<lparr>spacetype = 5\<rparr>\<rparr> [] = Inl NullSpaceType \<and>
   catalog_filter_from_shelf_settings
     (Some \<lparr>active_catalog_path = Some ''Missing'', display_flag = 1\<rparr>) ex_library = None"
proof -
  have n: "ED_assetlist_library_get_once_available ex_host (AssetLibraryReference 3) = None"
    by (simp add: ED_assetlist_library_get_once_available_def ex_host_def)
  have f: "find_catalog_by_path (catalog_service ex_library) ''Missing'' = None"
    by (simp add: ex_library_def)
  have 1: "build_items ex_flags ex_host (ex_view\<lparr>view_library_ref := AssetLibraryReference 3\<rparr>) =
     Inr (ex_view\<lparr>view_library_ref := AssetLibraryReference 3\<rparr>)"
    using n null_dereference_iff_space_unchecked
      [where host = ex_host and view = "ex_view\<lparr>view_library_ref := AssetLibraryReference 3\<rparr>"
         and d = ex_flags]
    by simp
  have 2: "build_items ex_flags ex_host
             (ex_view\<lparr>view_evil_C := \<lparr>wm_space_data = Some \<lparr>spacetype = 5\<rparr>\<rparr>\<rparr>) = Inl NullSpaceType \<and>
           build_context_menu ex_host (AssetViewItem_new ex_brush ''Brush/Clay'' ''Clay'' 7)
             \<lparr>wm_space_data = Some \<lparr>spacetype = 5\<rparr>\<rparr> [] = Inl NullSpaceType \<and>
           catalog_filter_from_shelf_settings
             (Some \<lparr>active_catalog_path = Some ''Missing'', display_flag = 1\<rparr>) ex_library = None"
    using f null_dereference_iff_space_unchecked
      [where host = ex_host
         and view = "ex_view\<lparr>view_evil_C := \<lparr>wm_space_data = Some \<lparr>spacetype = 5\<rparr>\<rparr>\<rparr>"
         and d = ex_flags
         and item = "AssetViewItem_new ex_brush ''Brush/Clay'' ''Clay'' 7"
         and C = "\<lparr>wm_space_data = Some \<lparr>spacetype = 5\<rparr>\<rparr>" and column = "[]"
         and shelf_settings = "Some \<lparr>active_catalog_path = Some ''Missing'', display_flag = 1\<rparr>"
         and library = ex_library]
    by (simp add: ex_view_fields ex_assets CTX_wm_space_data_def BKE_spacetype_from_id_def
          ED_assetlist_library_get_once_available_def ex_host_def)
  from n 1 2 show ?thesis by simp
qed

theorem missing_space_type_dereferenced:
  "build_items ex_flags ex_host (ex_view\<lparr>view_evil_C := \<lparr>wm_space_data = None\<rparr>\<rparr>) = Inl NullSpaceLink \<and>
   build_context_menu ex_host (AssetViewItem_new ex_brush ''Brush/Clay'' ''Clay'' 7)
     \<lparr>wm_space_data = None\<rparr> [] = Inl NullSpaceLink"
  by (simp add: build_items_def build_context_menu_def CTX_wm_space_data_def ex_view_fields
        ED_assetlist_library_get_once_available_def ex_host_def)

text \<open>
  C4. \<^verbatim>\<open>get_drag_type\<close> returns \<open>WM_DRAG_ID\<close> exactly when the asset has a local ID and
  \<open>WM_DRAG_ASSET\<close> exactly when it has none; \<^verbatim>\<open>create_drag_data\<close> returns the local ID
  in the first case and, in the second, the payload that \<^verbatim>\<open>WM_drag_create_asset_data\<close>
  builds from the asset, its full library path and its import method (append and reuse
  when the asset names none); the payload is a local ID exactly when the drag type is
  \<open>WM_DRAG_ID\<close>.
\<close>

theorem drag_type_and_drag_data_agree:
  "(get_drag_type c = WM_DRAG_ID \<longleftrightarrow> local_id (drag_asset c) \<noteq> None) \<and>
   (get_drag_type c = WM_DRAG_ASSET \<longleftrightarrow> local_id (drag_asset c) = None) \<and>
   (\<forall>local_id'. local_id (drag_asset c) = Some local_id' \<longrightarrow>
       create_drag_data c = DragLocalID local_id') \<and>
   (local_id (drag_asset c) = None \<longrightarrow>
       create_drag_data c =
         DragAssetData (WM_drag_create_asset_data (drag_asset c) (full_library_path (drag_asset c))
           (case import_method (drag_asset c) of Some m \<Rightarrow> m | None \<Rightarrow> ASSET_IMPORT_APPEND_REUSE)
           (view_evil_C (drag_view c)))) \<and>
   ((\<exists>local_id'. create_drag_data c = DragLocalID local_id') \<longleftrightarrow> get_drag_type c = WM_DRAG_ID)"
  by (cases "local_id (drag_asset c)") (simp_all add: get_drag_type_def create_drag_data_def)

theorem drag_type_and_drag_data_agree_witness:
  "local_id (drag_asset \<lparr>drag_view = ex_view, drag_asset = ex_brush\<rparr>) = None \<and>
   get_drag_type \<lparr>drag_view = ex_view, drag_asset = ex_brush\<rparr> = WM_DRAG_ASSET \<and>
   create_drag_data \<lparr>drag_view = ex_view, drag_asset = ex_brush\<rparr> =
     DragAssetData \<lparr>dragged_asset = ex_brush, dragged_path = ''/lib/brushes.blend/Brush/Clay'',
       dragged_import_method = ASSET_IMPORT_APPEND_REUSE, dragged_evil_C = ex_context\<rparr>"
  using drag_type_and_drag_data_agree [of "\<lparr>drag_view = ex_view, drag_asset = ex_brush\<rparr>"]
  by (simp add: ex_brush_def ex_view_fields WM_drag_create_asset_data_def)

text \<open>
  C5. \<^verbatim>\<open>build_context_menu\<close> calls \<^verbatim>\<open>draw_context_menu\<close> of each shelf type showing the
  asset without testing the pointer. For a space type with three shelf types that all
  show the asset, the second of which has no \<^verbatim>\<open>draw_context_menu\<close> callback, the call
  fails at the second shelf type, so the callback of the third is never called.
\<close>

theorem build_context_menu_null_draw_context_menu:
  "asset_shelf_types_showing_asset
     \<lparr>spaceid = 1, asset_shelf_types = [ex_shelf_brushes, ex_shelf_no_menu, ex_shelf_all]\<rparr>
     ex_context ex_brush = [ex_shelf_brushes, ex_shelf_no_menu, ex_shelf_all] \<and>
   draw_context_menu ex_shelf_no_menu = None \<and>
   build_context_menu
     (ex_host\<lparr>spacetypes :=
        [\<lparr>spaceid = 1, asset_shelf_types = [ex_shelf_brushes, ex_shelf_no_menu, ex_shelf_all]\<rparr>]\<rparr>)
     (AssetViewItem_new ex_brush ''Brush/Clay'' ''Clay'' 7) ex_context [] =
     Inl NullDrawContextMenu"
proof -
  have s: "asset_shelf_types_showing_asset
     \<lparr>spaceid = 1, asset_shelf_types = [ex_shelf_brushes, ex_shelf_no_menu, ex_shelf_all]\<rparr>
     ex_context ex_brush = [ex_shelf_brushes, ex_shelf_no_menu, ex_shelf_all]"
    by (simp add: asset_shelf_types_showing_asset_def ex_shelf_brushes_def ex_shelf_no_menu_def
          ex_shelf_all_def ex_brush_def)
  have n: "draw_context_menu ex_shelf_no_menu = None"
    by (simp add: ex_shelf_no_menu_def)
  have b: "draw_context_menu ex_shelf_brushes = Some (\<lambda>C asset column. column @ [''brush menu''])"
    by (simp add: ex_shelf_brushes_def)
  have a: "item_asset (AssetViewItem_new ex_brush ''Brush/Clay'' ''Clay'' 7) = ex_brush"
    by (simp add: AssetViewItem_new_def)
  have h1: "CTX_wm_space_data ex_context = Some \<lparr>spacetype = 1\<rparr>"
    by (simp add: CTX_wm_space_data_def ex_context_def)
  have h2: "BKE_spacetype_from_id
      (ex_host\<lparr>spacetypes :=
         [\<lparr>spaceid = 1, asset_shelf_types = [ex_shelf_brushes, ex_shelf_no_menu, ex_shelf_all]\<rparr>]\<rparr>)
      1 =
      Some \<lparr>spaceid = 1, asset_shelf_types = [ex_shelf_brushes, ex_shelf_no_menu, ex_shelf_all]\<rparr>"
    by (simp add: BKE_spacetype_from_id_def)
  have "build_context_menu
     (ex_host\<lparr>spacetypes :=
        [\<lparr>spaceid = 1, asset_shelf_types = [ex_shelf_brushes, ex_shelf_no_menu, ex_shelf_all]\<rparr>]\<rparr>)
     (AssetViewItem_new ex_brush ''Brush/Clay'' ''Clay'' 7) ex_context [] =
     Inl NullDrawContextMenu"
    by (simp add: build_context_menu_def h1 h2 a s n b)
  with s n show ?thesis by simp
qed

text \<open>
  C6. When the library is not available, \<^verbatim>\<open>build_items\<close> returns the view with no item
  added, and \<^verbatim>\<open>build_asset_view\<close> returns after its two requests to the asset list
  storage: no view is registered in the block and the layout is as it was, whatever the
  shelf settings are and without the grid view builder being run.
\<close>

theorem library_unavailable_builds_nothing:
  assumes "ED_assetlist_library_get_once_available host library_ref = None"
  shows "(view_library_ref view = library_ref \<longrightarrow> build_items d host view = Inr view) \<and>
         build_asset_view build_grid_view host library_ref shelf_settings C ui =
           Inr (ui\<lparr>storage_fetched := storage_fetched ui @ [library_ref],
                   previews_jobs := previews_jobs ui @ [library_ref]\<rparr>) \<and>
         (\<exists>ui'. build_asset_view build_grid_view host library_ref shelf_settings C ui = Inr ui' \<and>
                block_views ui' = block_views ui \<and> layout ui' = layout ui)"
  using assms
  by (auto simp: build_items_def build_asset_view_def ED_assetlist_storage_fetch_def
        ED_assetlist_ensure_previews_job_def)

theorem library_unavailable_builds_nothing_witness:
  "ED_assetlist_library_get_once_available ex_host (AssetLibraryReference 3) = None \<and>
   build_items ex_flags ex_host (ex_view\<lparr>view_library_ref := AssetLibraryReference 3\<rparr>) =
     Inr (ex_view\<lparr>view_library_ref := AssetLibraryReference 3\<rparr>) \<and>
   build_asset_view (\<lambda>view layout. Inr (view, layout @ [''grid''])) ex_host (AssetLibraryReference 3)
     None ex_context \<lparr>storage_fetched = [], previews_jobs = [], block_views = [], layout = []\<rparr> =
     Inr \<lparr>storage_fetched = [AssetLibraryReference 3], previews_jobs = [AssetLibraryReference 3],
          block_views = [], layout = []\<rparr>"
proof -
  have h: "ED_assetlist_library_get_once_available ex_host (AssetLibraryReference 3) = None"
    by (simp add: ED_assetlist_library_get_once_available_def ex_host_def)
  show ?thesis
    using h library_unavailable_builds_nothing [OF h,
        of "ex_view\<lparr>view_library_ref := AssetLibraryReference 3\<rparr>" ex_flags
           "\<lambda>view layout. Inr (view, layout @ [''grid''])" None ex_context
           "\<lparr>storage_fetched = [], previews_jobs = [], block_views = [], layout = []\<rparr>"]
    by simp
qed

text \<open>
  C7. \<^verbatim>\<open>catalog_filter_from_shelf_settings\<close> returns no filter exactly when the shelf
  settings are null, or their active catalog path is null, or the library has no catalog
  with that path. A view that is given this result by \<^verbatim>\<open>set_catalog_filter\<close> then has
  no catalog filter, and \<^verbatim>\<open>build_items\<close> on it adds an item for every asset that some
  shelf type shows, whatever the asset's catalog is.
\<close>

theorem catalog_filter_from_shelf_settings_none_iff:
  "(catalog_filter_from_shelf_settings shelf_settings library = None \<longleftrightarrow>
      shelf_settings = None \<or>
      (\<exists>settings. shelf_settings = Some settings \<and> active_catalog_path settings = None) \<or>
      (\<exists>settings path. shelf_settings = Some settings \<and> active_catalog_path settings = Some path \<and>
         find_catalog_by_path (catalog_service library) path = None)) \<and>
   (catalog_filter_from_shelf_settings shelf_settings library = None \<longrightarrow>
      view_catalog_filter
        (set_catalog_filter (catalog_filter_from_shelf_settings shelf_settings library) view) = None \<and>
      (\<forall>d host library' space_link space_type.
         ED_assetlist_library_get_once_available host (view_library_ref view) = Some library' \<and>
         CTX_wm_space_data (view_evil_C view) = Some space_link \<and>
         BKE_spacetype_from_id host (spacetype space_link) = Some space_type \<longrightarrow>
         (\<exists>view' added.
            build_items d host
              (set_catalog_filter (catalog_filter_from_shelf_settings shelf_settings library) view) =
              Inr view' \<and>
            view_items view' = view_items view @ added \<and>
            map item_asset added =
              filter (\<lambda>asset. asset_shelf_types_showing_asset space_type (view_evil_C view) asset \<noteq> [])
                (assetlists host (view_library_ref view)))))"
proof (intro conjI impI allI)
  show "catalog_filter_from_shelf_settings shelf_settings library = None \<longleftrightarrow>
      shelf_settings = None \<or>
      (\<exists>settings. shelf_settings = Some settings \<and> active_catalog_path settings = None) \<or>
      (\<exists>settings path. shelf_settings = Some settings \<and> active_catalog_path settings = Some path \<and>
         find_catalog_by_path (catalog_service library) path = None)"
    by (auto simp: catalog_filter_from_shelf_settings_def split: option.splits)
next
  assume n: "catalog_filter_from_shelf_settings shelf_settings library = None"
  show "view_catalog_filter
        (set_catalog_filter (catalog_filter_from_shelf_settings shelf_settings library) view) = None"
    by (simp add: n set_catalog_filter_def)
next
  fix d host library' space_link space_type
  assume n: "catalog_filter_from_shelf_settings shelf_settings library = None"
  assume h: "ED_assetlist_library_get_once_available host (view_library_ref view) = Some library' \<and>
         CTX_wm_space_data (view_evil_C view) = Some space_link \<and>
         BKE_spacetype_from_id host (spacetype space_link) = Some space_type"
  let ?view = "set_catalog_filter None view"
  have f: "view_library_ref ?view = view_library_ref view" "view_evil_C ?view = view_evil_C view"
    "view_items ?view = view_items view" "view_catalog_filter ?view = None"
    by (simp_all add: set_catalog_filter_def)
  from h have h': "ED_assetlist_library_get_once_available host (view_library_ref ?view) = Some library'"
    "CTX_wm_space_data (view_evil_C ?view) = Some space_link"
    "BKE_spacetype_from_id host (spacetype space_link) = Some space_type"
    by (simp_all add: f)
  obtain added where
    b: "build_items d host ?view = Inr (?view\<lparr>view_items := view_items ?view @ added\<rparr>)" and
    m: "map item_asset added =
          filter (\<lambda>a. asset_shelf_types_showing_asset space_type (view_evil_C ?view) a \<noteq> [] \<and>
                        (case view_catalog_filter ?view of None \<Rightarrow> True
                         | Some f \<Rightarrow> contains f (catalog_id (metadata a))))
            (assetlists host (view_library_ref ?view))"
    using build_items_available [OF h', of d] by blast
  show "\<exists>view' added.
            build_items d host
              (set_catalog_filter (catalog_filter_from_shelf_settings shelf_settings library) view) =
              Inr view' \<and>
            view_items view' = view_items view @ added \<and>
            map item_asset added =
              filter (\<lambda>asset. asset_shelf_types_showing_asset space_type (view_evil_C view) asset \<noteq> [])
                (assetlists host (view_library_ref view))"
    using b m unfolding n f
    by (intro exI [of _ "?view\<lparr>view_items := view_items view @ added\<rparr>"] exI [of _ added]) simp
qed

theorem catalog_filter_from_shelf_settings_none_iff_witness:
  "catalog_filter_from_shelf_settings
     (Some \<lparr>active_catalog_path = Some ''Missing'', display_flag = 1\<rparr>) ex_library = None \<and>
   view_catalog_filter ex_view \<noteq> None \<and>
   (\<exists>view' added.
      build_items ex_flags ex_host
        (set_catalog_filter
           (catalog_filter_from_shelf_settings
              (Some \<lparr>active_catalog_path = Some ''Missing'', display_flag = 1\<rparr>) ex_library)
           ex_view) = Inr view' \<and>
      view_items view' = view_items ex_view @ added \<and>
      map item_asset added = [ex_brush, ex_cube])"
proof -
  let ?s = "Some \<lparr>active_catalog_path = Some ''Missing'', display_flag = 1\<rparr>"
  have n: "catalog_filter_from_shelf_settings ?s ex_library = None"
    by (simp add: catalog_filter_from_shelf_settings_def ex_library_def)
  note t = catalog_filter_from_shelf_settings_none_iff [of ?s ex_library ex_view]
  from t n have
    "\<forall>d host library' space_link space_type.
         ED_assetlist_library_get_once_available host (view_library_ref ex_view) = Some library' \<and>
         CTX_wm_space_data (view_evil_C ex_view) = Some space_link \<and>
         BKE_spacetype_from_id host (spacetype space_link) = Some space_type \<longrightarrow>
         (\<exists>view' added.
            build_items d host
              (set_catalog_filter (catalog_filter_from_shelf_settings ?s ex_library) ex_view) =
              Inr view' \<and>
            view_items view' = view_items ex_view @ added \<and>
            map item_asset added =
              filter (\<lambda>asset. asset_shelf_types_showing_asset space_type (view_evil_C ex_view) asset \<noteq> [])
                (assetlists host (view_library_ref ex_view)))"
    by blast
  then have "\<exists>view' added.
            build_items ex_flags ex_host
              (set_catalog_filter (catalog_filter_from_shelf_settings ?s ex_library) ex_view) =
              Inr view' \<and>
            view_items view' = view_items ex_view @ added \<and>
            map item_asset added =
              filter (\<lambda>asset. asset_shelf_types_showing_asset
                         \<lparr>spaceid = 1, asset_shelf_types = [ex_shelf_brushes, ex_shelf_all]\<rparr>
                         (view_evil_C ex_view) asset \<noteq> [])
                (assetlists ex_host (view_library_ref ex_view))"
    using ex_view_library ex_view_space_link ex_space_type by blast
  then have "\<exists>view' added.
      build_items ex_flags ex_host
        (set_catalog_filter (catalog_filter_from_shelf_settings ?s ex_library) ex_view) = Inr view' \<and>
      view_items view' = view_items ex_view @ added \<and>
      map item_asset added = [ex_brush, ex_cube]"
    by (simp add: ex_view_fields ex_assets ex_showing_brush ex_showing_cube)
  with n show ?thesis by (simp add: ex_view_fields)
qed

text \<open>
  C8. For every item that \<^verbatim>\<open>build_items\<close> has added, \<^verbatim>\<open>create_drag_controller\<close> returns
  null exactly when one of the shelf types that showed the item's asset when the item was
  built has the \<open>ASSET_SHELF_TYPE_NO_ASSET_DRAG\<close> flag; otherwise it returns a drag
  controller for the view and that asset.
\<close>

theorem create_drag_controller_null_iff_no_asset_drag:
  assumes "ED_assetlist_library_get_once_available host (view_library_ref view) = Some library"
    and "CTX_wm_space_data (view_evil_C view) = Some space_link"
    and "BKE_spacetype_from_id host (spacetype space_link) = Some space_type"
  shows "\<exists>view' added.
           build_items d host view = Inr view' \<and>
           view_items view' = view_items view @ added \<and>
           (\<forall>item \<in> set added.
              (create_drag_controller view' item = None \<longleftrightarrow>
                 (\<exists>shelf \<in> set (asset_shelf_types_showing_asset space_type (view_evil_C view)
                                   (item_asset item)).
                    flag shelf AND ASSET_SHELF_TYPE_NO_ASSET_DRAG d \<noteq> 0)) \<and>
              (create_drag_controller view' item \<noteq> None \<longrightarrow>
                 create_drag_controller view' item =
                   Some \<lparr>drag_view = view', drag_asset = item_asset item\<rparr>))"
proof -
  obtain added where
    b: "build_items d host view = Inr (view\<lparr>view_items := view_items view @ added\<rparr>)" and
    p: "\<forall>item \<in> set added.
          item_allow_asset_drag item =
            (\<not> shelves_is_any_no_asset_drag d
                  (asset_shelf_types_showing_asset space_type (view_evil_C view) (item_asset item)))"
    using build_items_available [OF assms, of d] by blast
  show ?thesis
    using b p
    by (intro exI [of _ "view\<lparr>view_items := view_items view @ added\<rparr>"] exI [of _ added])
       (simp add: create_drag_controller_def any_no_asset_drag_iff)
qed

theorem create_drag_controller_null_iff_no_asset_drag_witness:
  "ED_assetlist_library_get_once_available ex_host (view_library_ref ex_view) = Some ex_library \<and>
   CTX_wm_space_data (view_evil_C ex_view) = Some \<lparr>spacetype = 1\<rparr> \<and>
   BKE_spacetype_from_id ex_host (spacetype \<lparr>spacetype = 1\<rparr>) =
     Some \<lparr>spaceid = 1, asset_shelf_types = [ex_shelf_brushes, ex_shelf_all]\<rparr> \<and>
   (\<exists>view' item. build_items ex_flags ex_host ex_view = Inr view' \<and>
      view_items view' = [item] \<and> item_asset item = ex_brush \<and>
      create_drag_controller view' item = None)"
proof -
  note h = ex_view_library ex_view_space_link ex_space_type
  have "\<exists>view' item. build_items ex_flags ex_host ex_view = Inr view' \<and>
      view_items view' = [item] \<and> item_asset item = ex_brush \<and>
      create_drag_controller view' item = None"
    using create_drag_controller_null_iff_no_asset_drag [OF h, of ex_flags]
    by (simp add: ex_build_items ex_view_fields ex_showing_brush ex_no_asset_drag)
  with h show ?thesis by simp
qed

text \<open>
  C9. For every item that \<^verbatim>\<open>build_items\<close> has added, the identifier is the relative
  path of the item's asset, and the label is the asset's name when the display flag of
  the shelf settings has \<open>ASSETSHELF_SHOW_NAMES\<close> set and the empty string otherwise.
\<close>

theorem build_items_identifier_and_label:
  assumes "ED_assetlist_library_get_once_available host (view_library_ref view) = Some library"
    and "CTX_wm_space_data (view_evil_C view) = Some space_link"
    and "BKE_spacetype_from_id host (spacetype space_link) = Some space_type"
  shows "\<exists>view' added.
           build_items d host view = Inr view' \<and>
           view_items view' = view_items view @ added \<and>
           (\<forall>item \<in> set added.
              item_identifier item = relative_path (item_asset item) \<and>
              item_label item =
                (if display_flag (view_shelf_settings view) AND ASSETSHELF_SHOW_NAMES d \<noteq> 0
                 then name (item_asset item) else ''''))"
proof -
  obtain added where
    b: "build_items d host view = Inr (view\<lparr>view_items := view_items view @ added\<rparr>)" and
    p: "\<forall>item \<in> set added.
          item_identifier item = relative_path (item_asset item) \<and>
          item_label item =
            (if display_flag (view_shelf_settings view) AND ASSETSHELF_SHOW_NAMES d \<noteq> 0
             then name (item_asset item) else [])"
    using build_items_available [OF assms, of d] by blast
  show ?thesis
    using b p
    by (intro exI [of _ "view\<lparr>view_items := view_items view @ added\<rparr>"] exI [of _ added]) simp
qed

theorem build_items_identifier_and_label_witness:
  "ED_assetlist_library_get_once_available ex_host (view_library_ref ex_view) = Some ex_library \<and>
   CTX_wm_space_data (view_evil_C ex_view) = Some \<lparr>spacetype = 1\<rparr> \<and>
   BKE_spacetype_from_id ex_host (spacetype \<lparr>spacetype = 1\<rparr>) =
     Some \<lparr>spaceid = 1, asset_shelf_types = [ex_shelf_brushes, ex_shelf_all]\<rparr> \<and>
   (\<exists>view' item. build_items ex_flags ex_host ex_view = Inr view' \<and>
      view_items view' = [item] \<and> item_asset item = ex_brush \<and>
      item_identifier item = ''Brush/Clay'' \<and> item_label item = ''Clay'')"
proof -
  note h = ex_view_library ex_view_space_link ex_space_type
  have "\<exists>view' item. build_items ex_flags ex_host ex_view = Inr view' \<and>
      view_items view' = [item] \<and> item_asset item = ex_brush \<and>
      item_identifier item = ''Brush/Clay'' \<and> item_label item = ''Clay''"
    using build_items_identifier_and_label [OF h, of ex_flags]
    by (simp add: ex_build_items ex_view_fields)
  with h show ?thesis by simp
qed

text \<open>
  C10. \<^verbatim>\<open>set_catalog_filter\<close> makes the view's catalog filter equal to its argument,
  whatever the filter was before, and changes no other member of the view.
\<close>

theorem set_catalog_filter_sets_only_filter:
  "view_catalog_filter (set_catalog_filter catalog_filter view) = catalog_filter \<and>
   view_library_ref (set_catalog_filter catalog_filter view) = view_library_ref view \<and>
   view_shelf_settings (set_catalog_filter catalog_filter view) = view_shelf_settings view \<and>
   view_evil_C (set_catalog_filter catalog_filter view) = view_evil_C view \<and>
   view_items (set_catalog_filter catalog_filter view) = view_items view \<and>
   view_tile_size (set_catalog_filter catalog_filter view) = view_tile_size view \<and>
   set_catalog_filter catalog_filter view = view\<lparr>view_catalog_filter := catalog_filter\<rparr>"
  by (cases catalog_filter) (simp_all add: set_catalog_filter_def)

end
